theory Spec2Isabelle
  imports Complex_Main "HOL-Library.Multiset" "HOL-Library.Signed_Division"
begin

section \<open>gh-search-docs: argument reordering, query parameters and result rendering\<close>

text \<open>
  A shallow embedding of \<^verbatim>\<open>main.go\<close> (and of \<^verbatim>\<open>NormalizeVersion\<close> from
  \<^verbatim>\<open>searchdocs/utils.go\<close>). Go strings are byte sequences, so they are HOL strings
  (\<open>char list\<close>, a \<open>char\<close> being one byte) and \<^verbatim>\<open>len\<close> is \<open>length\<close>. Go's \<^verbatim>\<open>int\<close> is
  taken at its 64-bit width: values are HOL integers, and the one place where the program
  computes with unbounded operands (the page arithmetic) wraps its result with \<open>wrap64\<close>.
\<close>

subsection \<open>Library functions of Go used by the program\<close>

definition hasPrefix :: "string \<Rightarrow> string \<Rightarrow> bool" where
  \<comment> \<open>\<^verbatim>\<open>strings.HasPrefix(s, prefix)\<close>\<close>
  "hasPrefix s p = (take (length p) s = p)"

definition trimPrefix :: "string \<Rightarrow> string \<Rightarrow> string" where
  \<comment> \<open>\<^verbatim>\<open>strings.TrimPrefix(s, prefix)\<close>\<close>
  "trimPrefix s p = (if hasPrefix s p then drop (length p) s else s)"

fun strContains :: "string \<Rightarrow> string \<Rightarrow> bool" where
  \<comment> \<open>\<^verbatim>\<open>strings.Contains(s, substr)\<close>\<close>
  "strContains [] sub = (sub = [])"
| "strContains (c # cs) sub = (hasPrefix (c # cs) sub \<or> strContains cs sub)"

fun join :: "string list \<Rightarrow> string \<Rightarrow> string" where
  \<comment> \<open>\<^verbatim>\<open>strings.Join(elems, sep)\<close>\<close>
  "join [] sep = []"
| "join [x] sep = x"
| "join (x # y # ys) sep = x @ sep @ join (y # ys) sep"

function replaceAll :: "string \<Rightarrow> string \<Rightarrow> string \<Rightarrow> string" where
  \<comment> \<open>\<^verbatim>\<open>strings.ReplaceAll(s, old, new)\<close> for a non-empty \<^verbatim>\<open>old\<close>: the matches are
      taken from left to right and do not overlap\<close>
  "replaceAll s old new =
     (if old = [] \<or> s = [] then s
      else if hasPrefix s old then new @ replaceAll (drop (length old) s) old new
      else hd s # replaceAll (tl s) old new)"
  by pat_completeness auto
termination
  by (relation "measure (\<lambda>(s, old, new). length s)") auto

declare replaceAll.simps [simp del]

fun nat_digits :: "nat \<Rightarrow> string" where
  "nat_digits n =
     (if n < 10 then [char_of (48 + n)]
      else nat_digits (n div 10) @ [char_of (48 + n mod 10)])"

declare nat_digits.simps [simp del]

definition itoa :: "int \<Rightarrow> string" where
  \<comment> \<open>\<^verbatim>\<open>strconv.Itoa\<close>, and the verb \<^verbatim>\<open>%d\<close> of \<^verbatim>\<open>fmt\<close>\<close>
  "itoa i = (if i < 0 then CHR ''-'' # nat_digits (nat (- i)) else nat_digits (nat i))"

definition wrap64 :: "int \<Rightarrow> int" where
  \<comment> \<open>the value of a 64-bit two's complement \<^verbatim>\<open>int\<close> after an arithmetic operation\<close>
  "wrap64 k = signed_take_bit 63 k"

definition in_int64 :: "int \<Rightarrow> bool" where
  "in_int64 k = (- (2 ^ 63) \<le> k \<and> k < 2 ^ 63)"

subsection \<open>Argument reorderer\<close>

definition boolFlags :: "string \<Rightarrow> bool" where
  \<comment> \<open>the map literal \<^verbatim>\<open>boolFlags\<close>; a key that is absent reads as \<^verbatim>\<open>false\<close>\<close>
  "boolFlags arg =
     (arg = ''--debug'' \<or> arg = ''--plain'' \<or> arg = ''--list-versions''
      \<or> arg = ''--include-matched-content'')"

function reorderLoop ::
  "string list \<Rightarrow> nat \<Rightarrow> string list \<Rightarrow> string list \<Rightarrow> string list \<times> string list" where
  "reorderLoop args i flags nonFlags =
     (if i < length args then
        (let arg = args ! i in
         if hasPrefix arg ''-'' then
           (if strContains arg ''='' then reorderLoop args (i + 1) (flags @ [arg]) nonFlags
            else if boolFlags arg then reorderLoop args (i + 1) (flags @ [arg]) nonFlags
            else if i + 1 < length args \<and> \<not> hasPrefix (args ! (i + 1)) ''-''
              then reorderLoop args (i + 1 + 1) ((flags @ [arg]) @ [args ! (i + 1)]) nonFlags
              else reorderLoop args (i + 1) (flags @ [arg]) nonFlags)
         else reorderLoop args (i + 1) flags (nonFlags @ [arg]))
      else (flags, nonFlags))"
  by pat_completeness auto
termination
  by (relation "measure (\<lambda>(args, i, flags, nonFlags). length args - i)") auto

declare reorderLoop.simps [simp del]

definition reorderArgs :: "string list \<Rightarrow> string list" where
  "reorderArgs args = (case reorderLoop args 0 [] [] of (flags, nonFlags) \<Rightarrow> flags @ nonFlags)"

text \<open>
  The classification of the specification, token by token: a flag token begins with the
  flag prefix; a value-taking flag is a flag token with no embedded \<open>=\<close> that is not a
  boolean flag; a token belongs to the flag group when it is a flag token or when it
  follows a value-taking flag directly (a value, never itself a flag token, since every
  flag token is in the group already).
\<close>

definition valueTaking :: "string \<Rightarrow> bool" where
  "valueTaking a = (hasPrefix a ''-'' \<and> \<not> strContains a ''='' \<and> \<not> boolFlags a)"

definition inFlagGroup :: "string list \<Rightarrow> nat \<Rightarrow> bool" where
  "inFlagGroup args j = (hasPrefix (args ! j) ''-'' \<or> (0 < j \<and> valueTaking (args ! (j - 1))))"

definition flagGroup :: "string list \<Rightarrow> string list" where
  "flagGroup args = map (nth args) (filter (inFlagGroup args) [0..<length args])"

definition positionalGroup :: "string list \<Rightarrow> string list" where
  "positionalGroup args =
     map (nth args) (filter (\<lambda>j. \<not> inFlagGroup args j) [0..<length args])"

subsection \<open>Version normalisation (\<^verbatim>\<open>searchdocs/utils.go\<close>)\<close>

record SupportedVersions =
  lastUpdated :: string
  supportedVersions :: "string list"
  latestVersion :: string

text \<open>
  \<^verbatim>\<open>LoadSupportedVersions\<close> reads a file; its result is a parameter here: \<open>None\<close> when it
  returns an error, \<open>Some\<close> of the decoded file otherwise.
\<close>

definition IsVersionSupported :: "SupportedVersions option \<Rightarrow> string \<Rightarrow> bool" where
  "IsVersionSupported loaded version =
     (case loaded of
        None \<Rightarrow> List.member [''3.14'', ''3.15'', ''3.16'', ''3.17''] version
      | Some versions \<Rightarrow> List.member (supportedVersions versions) version)"

definition NormalizeVersion :: "SupportedVersions option \<Rightarrow> string \<Rightarrow> string" where
  "NormalizeVersion loaded v =
     (if v = ''free-pro-team'' \<or> v = ''enterprise-cloud'' then v
      else if hasPrefix v ''enterprise-server@'' then
        (let versionPart = trimPrefix v ''enterprise-server@'' in
         if IsVersionSupported loaded versionPart then v
         else (case loaded of
                 Some versions \<Rightarrow>
                   if latestVersion versions \<noteq> [] then ''enterprise-server@'' @ latestVersion versions
                   else ''enterprise-server@3.17''
               | None \<Rightarrow> ''enterprise-server@3.17''))
      else ''free-pro-team'')"

subsection \<open>Parsed options and the query parameter builder\<close>

record Options =
  queryFlag :: string
  sizeFlag :: int
  versionFlag :: string
  languageFlag :: string
  pageFlag :: int
  sortFlag :: string
  debugFlag :: bool
  formatFlag :: string
  plainFlag :: bool
  includeMatchedContentFlag :: bool
  highlights :: "string list"
  includes_opt :: "string list"  \<comment> \<open>\<^verbatim>\<open>includes\<close> in the source\<close>
  toplevel :: "string list"
  aggregate :: "string list"
  positional :: "string list"  \<comment> \<open>\<^verbatim>\<open>fs.Args()\<close>, the arguments left after the flags\<close>

definition queryOf :: "Options \<Rightarrow> string" where
  \<comment> \<open>the query from the flag or the positional arguments\<close>
  "queryOf opts =
     (if queryFlag opts = [] \<and> length (positional opts) > 0 then join (positional opts) '' ''
      else queryFlag opts)"

type_synonym Values = "string \<rightharpoonup> string list"  \<comment> \<open>\<^verbatim>\<open>url.Values\<close>\<close>

definition paramValues :: "Values \<Rightarrow> string \<Rightarrow> string list" where
  \<comment> \<open>\<^verbatim>\<open>params[key]\<close>: the values of a key, none when the key is absent\<close>
  "paramValues params key = (case params key of None \<Rightarrow> [] | Some vs \<Rightarrow> vs)"

definition paramsSet :: "string \<Rightarrow> string \<Rightarrow> Values \<Rightarrow> Values" where
  \<comment> \<open>\<^verbatim>\<open>params.Set(key, value)\<close> replaces the values of the key\<close>
  "paramsSet key v params = params(key \<mapsto> [v])"

definition paramsAdd :: "string \<Rightarrow> string \<Rightarrow> Values \<Rightarrow> Values" where
  \<comment> \<open>\<^verbatim>\<open>params.Add(key, value)\<close> appends to the values of the key\<close>
  "paramsAdd key v params = params(key \<mapsto> paramValues params key @ [v])"

definition addEach :: "string \<Rightarrow> string list \<Rightarrow> Values \<Rightarrow> Values" where
  \<comment> \<open>\<^verbatim>\<open>for _, v := range vs { params.Add(key, v) }\<close>\<close>
  "addEach key vs params = fold (paramsAdd key) vs params"

definition buildParams :: "Options \<Rightarrow> string \<Rightarrow> string \<Rightarrow> Values" where
  "buildParams opts query version =
     (let params = Map.empty;
          params = paramsSet ''query'' query params;
          params = paramsSet ''size'' (itoa (sizeFlag opts)) params;
          params = paramsSet ''version'' version params;
          params = paramsSet ''language'' (languageFlag opts) params;
          params = (if pageFlag opts > 0 then paramsSet ''page'' (itoa (pageFlag opts)) params
                    else params);
          params = (if sortFlag opts \<noteq> [] then paramsSet ''sort'' (sortFlag opts) params
                    else params);
          params = (if length (highlights opts) > 0 then addEach ''highlights'' (highlights opts) params
                    else params);
          params = (if includeMatchedContentFlag opts
                    then paramsAdd ''highlights'' ''content_explicit'' params
                    else params);
          params = (if length (includes_opt opts) = 0 then
                      (if includeMatchedContentFlag opts then paramsAdd ''include'' ''toplevel'' params
                       else paramsAdd ''include'' ''intro'' params)
                    else addEach ''include'' (includes_opt opts) params);
          params = (if length (toplevel opts) > 0 then addEach ''toplevel'' (toplevel opts) params
                    else params);
          params = (if length (aggregate opts) > 0 then addEach ''aggregate'' (aggregate opts) params
                    else params)
      in params)"

definition requestParams :: "SupportedVersions option \<Rightarrow> Options \<Rightarrow> Values" where
  \<comment> \<open>the parameters \<^verbatim>\<open>main\<close> builds: the query and the normalised version, then the rules\<close>
  "requestParams loaded opts =
     buildParams opts (queryOf opts) (NormalizeVersion loaded (versionFlag opts))"

definition defaultOptions :: Options where
  \<comment> \<open>the defaults of the flag set, with no argument given\<close>
  "defaultOptions =
     \<lparr>queryFlag = [], sizeFlag = 5, versionFlag = ''free-pro-team'', languageFlag = ''en'',
      pageFlag = 0, sortFlag = [], debugFlag = False, formatFlag = ''pretty'', plainFlag = False,
      includeMatchedContentFlag = False, highlights = [], includes_opt = [], toplevel = [],
      aggregate = [], positional = []\<rparr>"

subsection \<open>The decoded response\<close>

datatype jvalue = JString string | JArray "jvalue list" | JOther
  \<comment> \<open>what \<^verbatim>\<open>encoding/json\<close> stores in an \<^verbatim>\<open>interface{}\<close>: a string, a
      \<^verbatim>\<open>[]interface{}\<close>, or a value of another dynamic type (nil, bool, float64, map)\<close>

record SearchItem =
  ID :: string
  Title :: string
  URL :: string
  Breadcrumbs :: string
  Content :: string
  Intro :: string
  Headings :: string
  Toplevel :: string
  Highlights :: "(string \<rightharpoonup> jvalue) option"  \<comment> \<open>\<open>None\<close> is the nil map\<close>

record found_t =
  Value :: int
  Relation :: string

record took_t =
  QueryMsec :: int
  TotalMsec :: int

record meta_t =
  Found :: found_t
  Took :: took_t
  Page :: int
  Size :: int

record SearchResult =
  Meta :: meta_t
  Hits :: "SearchItem list"

definition itemWith :: "string \<Rightarrow> string \<Rightarrow> string \<Rightarrow> SearchItem" where
  \<comment> \<open>a decoded item with a title, a URL and an intro, the other fields absent\<close>
  "itemWith title url intro =
     \<lparr>ID = [], Title = title, URL = url, Breadcrumbs = [], Content = [], Intro = intro,
      Headings = [], Toplevel = [], Highlights = None\<rparr>"

definition resultWith :: "int \<Rightarrow> int \<Rightarrow> int \<Rightarrow> SearchItem list \<Rightarrow> SearchResult" where
  \<comment> \<open>a decoded response with a found count, a page, a page size and hits\<close>
  "resultWith found page psize hits =
     \<lparr>Meta = \<lparr>Found = \<lparr>Value = found, Relation = ''eq''\<rparr>,
              Took = \<lparr>QueryMsec = 0, TotalMsec = 0\<rparr>, Page = page, Size = psize\<rparr>,
      Hits = hits\<rparr>"

subsection \<open>Output of the results\<close>

definition maxResults :: "Options \<Rightarrow> SearchResult \<Rightarrow> int" where
  \<comment> \<open>how many results to show\<close>
  "maxResults opts result =
     (let n = int (length (Hits result)) in
      if sizeFlag opts = 5 \<and> n > 5 \<and> \<not> includeMatchedContentFlag opts then 5
      else if sizeFlag opts < n then sizeFlag opts
      else n)"

definition usePrettyRendering :: "Options \<Rightarrow> bool" where
  "usePrettyRendering opts = (\<not> plainFlag opts \<and> formatFlag opts \<noteq> ''plain'')"

definition introDescription :: "string \<Rightarrow> string" where
  \<comment> \<open>\<^verbatim>\<open>description := item.Intro\<close>, cut at 150 bytes\<close>
  "introDescription intro =
     (let description = intro in
      if length description > 150 then take 150 description @ ''...'' else description)"

definition summaryLines :: "Options \<Rightarrow> SearchItem \<Rightarrow> string list" where
  \<comment> \<open>the summary, shown unless matched content is requested\<close>
  "summaryLines opts item =
     (if \<not> includeMatchedContentFlag opts then
        (if Intro item \<noteq> [] then [''   '' @ introDescription (Intro item) @ ''\<newline>''] else [])
      else [])"

definition bullet :: string where
  \<comment> \<open>the bullet character U+2022 in UTF-8\<close>
  "bullet = [CHR 0xE2, CHR 0x80, CHR 0xA2]"

definition cleanStr :: "string \<Rightarrow> string" where
  \<comment> \<open>the HTML tags removed for plain text output\<close>
  "cleanStr str = replaceAll (replaceAll str ''<mark>'' []) ''</mark>'' []"

definition highlightStrings :: "jvalue \<Rightarrow> string list" where
  \<comment> \<open>the type switch on \<^verbatim>\<open>contentExplicit\<close>: the strings of a list, or the one string\<close>
  "highlightStrings contentExplicit =
     (case contentExplicit of
        JArray v \<Rightarrow> concat (map (\<lambda>highlight. case highlight of JString str \<Rightarrow> [str] | _ \<Rightarrow> []) v)
      | JString v \<Rightarrow> [v]
      | JOther \<Rightarrow> [])"

definition matchedLines :: "bool \<Rightarrow> Options \<Rightarrow> SearchItem \<Rightarrow> string list" where
  \<comment> \<open>the matched content, shown if the flag is set; \<open>pretty\<close> keeps the tags\<close>
  "matchedLines pretty opts item =
     (if includeMatchedContentFlag opts \<and> Highlights item \<noteq> None then
        (case the (Highlights item) ''content_explicit'' of
           Some contentExplicit \<Rightarrow>
             map (\<lambda>str. ''   '' @ bullet @ '' '' @ (if pretty then str else cleanStr str) @ ''\<newline>'')
               (highlightStrings contentExplicit)
         | None \<Rightarrow> [])
      else [])"

definition itemLines :: "bool \<Rightarrow> Options \<Rightarrow> nat \<Rightarrow> SearchItem \<Rightarrow> string list" where
  \<comment> \<open>the pieces of one result in the order both branches of the loop produce them:
      written to the markdown builder (pretty) or printed one by one (plain)\<close>
  "itemLines pretty opts i item =
     [itoa (int i + 1) @ ''. '' @ Title item @ ''\<newline>'',
      ''   '' @ (''https://docs.github.com'' @ URL item) @ ''\<newline>'']
     @ summaryLines opts item
     @ matchedLines pretty opts item
     @ [''\<newline>'']"

type_synonym Renderer = "string \<Rightarrow> string option"
  \<comment> \<open>\<^verbatim>\<open>renderer.Render\<close> of the styling engine: \<open>None\<close> is an error\<close>

definition itemOutput :: "Renderer option \<Rightarrow> Options \<Rightarrow> nat \<Rightarrow> SearchItem \<Rightarrow> string list" where
  \<comment> \<open>what iteration \<open>i\<close> of the loop prints; the renderer is \<open>None\<close> when it is nil\<close>
  "itemOutput renderer opts i item =
     (if usePrettyRendering opts then
        (let md = concat (itemLines True opts i item) in
         case renderer of
           Some render \<Rightarrow> (case render md of Some output \<Rightarrow> [output] | None \<Rightarrow> [md])
         | None \<Rightarrow> [md])
      else itemLines False opts i item)"

definition moreHint :: "Options \<Rightarrow> SearchResult \<Rightarrow> int \<Rightarrow> string list" where
  \<comment> \<open>info about remaining results if there are more than shown; \<open>n\<close> is the value of
      \<^verbatim>\<open>maxResults\<close>\<close>
  "moreHint opts result n =
     (let found = Value (Found (Meta result)) in
      if n = 5 \<and> found > 5 \<and> \<not> includeMatchedContentFlag opts then
        (if found \<le> 50 then
           [''Showing top 5 results. Use --size '' @ itoa found @ '' to see all '' @ itoa found
              @ '' results.\<newline>'']
         else
           [''Showing top 5 results. Use --size 50 to see the maximum 50 results per page.\<newline>'',
            ''Use --page to navigate through all '' @ itoa found @ '' results.\<newline>''])
        @ [''Use --include-matched-content for highlighted matches instead of descriptions.\<newline>\<newline>'']
      else [])"

definition goDiv :: "int \<Rightarrow> int \<Rightarrow> int option" where
  \<comment> \<open>Go's \<^verbatim>\<open>/\<close> on \<^verbatim>\<open>int\<close>: truncated towards zero, a run-time panic (\<open>None\<close>) when
      the divisor is zero\<close>
  "goDiv x y = (if y = 0 then None else Some (wrap64 (x sdiv y)))"

definition totalPages :: "SearchResult \<Rightarrow> int option" where
  "totalPages result =
     goDiv (wrap64 (wrap64 (Value (Found (Meta result)) + Size (Meta result)) - 1))
       (Size (Meta result))"

definition paginationLines :: "SearchResult \<Rightarrow> int \<Rightarrow> string list" where
  \<comment> \<open>pagination info; \<open>pages\<close> is the value of \<^verbatim>\<open>totalPages\<close>\<close>
  "paginationLines result pages =
     (if pages > 1 then
        [''\<newline>Showing page '' @ itoa (Page (Meta result)) @ '' of '' @ itoa pages @ '' (''
           @ itoa (Value (Found (Meta result))) @ '' total results)\<newline>'']
        @ (if Page (Meta result) < pages then
             [''Use --page '' @ itoa (wrap64 (Page (Meta result) + 1)) @ '' to see the next page\<newline>'']
           else [])
      else [])"

definition foundHeader :: "SearchResult \<Rightarrow> string list" where
  "foundHeader result =
     [''Found '' @ itoa (Value (Found (Meta result))) @ '' results'']
     @ (if Page (Meta result) > 1 then ['' (page '' @ itoa (Page (Meta result)) @ '')''] else [])
     @ [''\<newline>'']"

text \<open>
  What a run writes to standard output, by the part of \<^verbatim>\<open>main\<close> that wrote it: the
  header, one list of printed strings for each result shown, the hint about more
  results, the pagination lines.
\<close>

record rendered =
  header :: "string list"
  items :: "string list list"
  hint :: "string list"
  pagination :: "string list"

datatype outcome =
    ExitFailure string  \<comment> \<open>a message on standard error, then \<^verbatim>\<open>os.Exit(1)\<close>\<close>
  | JsonOutput string
  | NoResults string
  | Listing rendered
  | DivideByZeroPanic rendered
      \<comment> \<open>the run-time panic of the total pages, after the header, the results and the hint
          were printed\<close>

text \<open>
  Two parameters stand for what \<^verbatim>\<open>main\<close> gets from its libraries: \<open>marshalled\<close> is what
  \<^verbatim>\<open>json.MarshalIndent(result, "", "  ")\<close> returns (\<open>None\<close> is its error, reported by
  \<^verbatim>\<open>searchdocs.Fatal\<close>), and \<open>renderer\<close> is the renderer created for pretty output
  (\<open>None\<close> when both constructors return nil). The loop reads \<^verbatim>\<open>result.Hits[i]\<close> for
  \<open>i < maxResults\<close>, in range since \<open>maxResults\<close> never exceeds the number of hits
  (\<open>maxResults_le_hits\<close> below).
\<close>

definition outputResults ::
  "string option \<Rightarrow> Renderer option \<Rightarrow> Options \<Rightarrow> string \<Rightarrow> SearchResult \<Rightarrow> outcome" where
  "outputResults marshalled renderer opts query result =
     (if formatFlag opts = ''json'' then
        (case marshalled of
           None \<Rightarrow> ExitFailure ''error: ''  \<comment> \<open>followed by the text of the error\<close>
         | Some output \<Rightarrow> JsonOutput (output @ ''\<newline>''))
      else if Value (Found (Meta result)) = 0 then
        NoResults (''No results found for query: '' @ query @ ''\<newline>'')
      else
        (let n = maxResults opts result;
             shown = map (\<lambda>i. itemOutput renderer opts i (Hits result ! i)) [0..<nat n];
             r = \<lparr>header = foundHeader result, items = shown,
                  hint = moreHint opts result n, pagination = []\<rparr>
         in case totalPages result of
              None \<Rightarrow> DivideByZeroPanic r
            | Some pages \<Rightarrow> Listing (r\<lparr>pagination := paginationLines result pages\<rparr>)))"

text \<open>
  \<^verbatim>\<open>main\<close> from the query on, given the decoded response of the request: the usage
  error for an empty query, the two checks of the size, then the output. The parsing of
  the flags, the \<^verbatim>\<open>--list-versions\<close> branch before the query, the request itself and
  the copy of the raw response that \<^verbatim>\<open>--debug\<close> writes to standard error are outside
  this model.
\<close>

definition mainFromQuery ::
  "string option \<Rightarrow> Renderer option \<Rightarrow> Options \<Rightarrow> SearchResult \<Rightarrow> outcome" where
  "mainFromQuery marshalled renderer opts result =
     (let query = queryOf opts in
      if query = [] then ExitFailure ''usage''  \<comment> \<open>the text of \<^verbatim>\<open>fs.Usage\<close>\<close>
      else if sizeFlag opts > 50 then
        ExitFailure ''Error: --size cannot exceed 50 (GitHub Docs API limit). Use --page to navigate through more results.\<newline>''
      else if sizeFlag opts < 1 then ExitFailure ''Error: --size must be at least 1.\<newline>''
      else outputResults marshalled renderer opts query result)"

definition validOptions :: "Options \<Rightarrow> bool" where
  \<comment> \<open>the options with which \<^verbatim>\<open>main\<close> sends a request: a query, and a size from 1 to 50\<close>
  "validOptions opts = (queryOf opts \<noteq> [] \<and> 1 \<le> sizeFlag opts \<and> sizeFlag opts \<le> 50)"

definition shownItems :: "outcome \<Rightarrow> string list list" where
  \<comment> \<open>the results a run listed, one entry for each\<close>
  "shownItems out =
     (case out of Listing r \<Rightarrow> items r | DivideByZeroPanic r \<Rightarrow> items r | _ \<Rightarrow> [])"

definition hintOf :: "outcome \<Rightarrow> string list" where
  "hintOf out = (case out of Listing r \<Rightarrow> hint r | DivideByZeroPanic r \<Rightarrow> hint r | _ \<Rightarrow> [])"

definition paginationOf :: "outcome \<Rightarrow> string list" where
  "paginationOf out = (case out of Listing r \<Rightarrow> pagination r | _ \<Rightarrow> [])"

definition stdoutOf :: "outcome \<Rightarrow> string list" where
  \<comment> \<open>everything written to standard output, in order\<close>
  "stdoutOf out =
     (case out of
        ExitFailure msg \<Rightarrow> []
      | JsonOutput s \<Rightarrow> [s]
      | NoResults s \<Rightarrow> [s]
      | Listing r \<Rightarrow> header r @ concat (items r) @ hint r @ pagination r
      | DivideByZeroPanic r \<Rightarrow> header r @ concat (items r) @ hint r)"

definition isPanic :: "outcome \<Rightarrow> bool" where
  "isPanic out = (case out of DivideByZeroPanic r \<Rightarrow> True | _ \<Rightarrow> False)"

subsection \<open>The reorderer: proofs\<close>

lemma reorderLoop_groups:
  "i \<le> length args \<Longrightarrow>
   (i < length args \<Longrightarrow> inFlagGroup args i \<Longrightarrow> hasPrefix (args ! i) ''-'') \<Longrightarrow>
   reorderLoop args i flags nonFlags =
     (flags @ map (nth args) (filter (inFlagGroup args) [i..<length args]),
      nonFlags @ map (nth args) (filter (\<lambda>j. \<not> inFlagGroup args j) [i..<length args]))"
proof (induction args i flags nonFlags rule: reorderLoop.induct)
  case (1 args i flags nonFlags)
  show ?case
  proof (cases "i < length args")
    case False
    with "1.prems" have "i = length args" by simp
    then show ?thesis
      by (simp add: reorderLoop.simps [of args "length args"])
  next
    case lt: True
    then have upt: "[i..<length args] = i # [i + 1..<length args]"
      by (simp add: upt_conv_Cons)
    show ?thesis
    proof (cases "hasPrefix (args ! i) ''-''")
      case noflag: False
      then have notin: "\<not> inFlagGroup args i"
        using "1.prems"(2) lt by blast
      have next_ok: "inFlagGroup args (i + 1) \<Longrightarrow> hasPrefix (args ! (i + 1)) ''-''"
        using noflag by (simp add: inFlagGroup_def valueTaking_def)
      have "reorderLoop args (i + 1) flags (nonFlags @ [args ! i]) =
            (flags @ map (nth args) (filter (inFlagGroup args) [i + 1..<length args]),
             (nonFlags @ [args ! i]) @
               map (nth args) (filter (\<lambda>j. \<not> inFlagGroup args j) [i + 1..<length args]))"
        using "1.IH"(5) [OF lt refl noflag] lt next_ok by simp
      then show ?thesis
        using lt noflag notin upt by (simp add: reorderLoop.simps [of args i])
    next
      case isflag: True
      then have isin: "inFlagGroup args i"
        by (simp add: inFlagGroup_def)
      show ?thesis
      proof (cases "strContains (args ! i) ''=''")
        case eq: True
        have next_ok: "inFlagGroup args (i + 1) \<Longrightarrow> hasPrefix (args ! (i + 1)) ''-''"
          using eq by (simp add: inFlagGroup_def valueTaking_def)
        have "reorderLoop args (i + 1) (flags @ [args ! i]) nonFlags =
              ((flags @ [args ! i]) @
                 map (nth args) (filter (inFlagGroup args) [i + 1..<length args]),
               nonFlags @
                 map (nth args) (filter (\<lambda>j. \<not> inFlagGroup args j) [i + 1..<length args]))"
          using "1.IH"(1) [OF lt refl isflag eq] lt next_ok by simp
        then show ?thesis
          using lt isflag isin eq upt by (simp add: reorderLoop.simps [of args i])
      next
        case noeq: False
        show ?thesis
        proof (cases "boolFlags (args ! i)")
          case bf: True
          have next_ok: "inFlagGroup args (i + 1) \<Longrightarrow> hasPrefix (args ! (i + 1)) ''-''"
            using bf by (simp add: inFlagGroup_def valueTaking_def)
          have "reorderLoop args (i + 1) (flags @ [args ! i]) nonFlags =
                ((flags @ [args ! i]) @
                   map (nth args) (filter (inFlagGroup args) [i + 1..<length args]),
                 nonFlags @
                   map (nth args) (filter (\<lambda>j. \<not> inFlagGroup args j) [i + 1..<length args]))"
            using "1.IH"(2) [OF lt refl isflag noeq bf] lt next_ok by simp
          then show ?thesis
            using lt isflag isin noeq bf upt by (simp add: reorderLoop.simps [of args i])
        next
          case nobf: False
          have vt: "valueTaking (args ! i)"
            using isflag noeq nobf by (simp add: valueTaking_def)
          show ?thesis
          proof (cases "i + 1 < length args \<and> \<not> hasPrefix (args ! (i + 1)) ''-''")
            case consume: True
            then have lt2: "i + 1 < length args" and noflag2: "\<not> hasPrefix (args ! (i + 1)) ''-''"
              by simp_all
            have upt2: "[i..<length args] = i # Suc i # [Suc (Suc i)..<length args]"
              using lt lt2 by (simp add: upt_conv_Cons)
            have isin2: "inFlagGroup args (i + 1)"
              using vt by (simp add: inFlagGroup_def)
            have next_ok: "inFlagGroup args (i + 1 + 1) \<Longrightarrow> hasPrefix (args ! (i + 1 + 1)) ''-''"
              using noflag2 by (simp add: inFlagGroup_def valueTaking_def)
            have "reorderLoop args (i + 1 + 1) ((flags @ [args ! i]) @ [args ! (i + 1)]) nonFlags =
                  (((flags @ [args ! i]) @ [args ! (i + 1)]) @
                     map (nth args) (filter (inFlagGroup args) [i + 1 + 1..<length args]),
                   nonFlags @
                     map (nth args)
                       (filter (\<lambda>j. \<not> inFlagGroup args j) [i + 1 + 1..<length args]))"
              using "1.IH"(3) [OF lt refl isflag noeq nobf consume] lt2 next_ok by simp
            then show ?thesis
              using lt isflag isin noeq nobf consume isin2
              by (simp add: reorderLoop.simps [of args i] upt2)
          next
            case noconsume: False
            have next_ok: "i + 1 < length args \<Longrightarrow> hasPrefix (args ! (i + 1)) ''-''"
              using noconsume by simp
            have "reorderLoop args (i + 1) (flags @ [args ! i]) nonFlags =
                  ((flags @ [args ! i]) @
                     map (nth args) (filter (inFlagGroup args) [i + 1..<length args]),
                   nonFlags @
                     map (nth args)
                       (filter (\<lambda>j. \<not> inFlagGroup args j) [i + 1..<length args]))"
              using "1.IH"(4) [OF lt refl isflag noeq nobf noconsume] lt next_ok by simp
            then show ?thesis
              using lt isflag isin noeq nobf noconsume upt
              by (auto simp add: reorderLoop.simps [of args i])
          qed
        qed
      qed
    qed
  qed
qed

lemma reorderArgs_groups: "reorderArgs args = flagGroup args @ positionalGroup args"
proof -
  have start: "0 < length args \<Longrightarrow> inFlagGroup args 0 \<Longrightarrow> hasPrefix (args ! 0) ''-''"
    by (simp add: inFlagGroup_def)
  have "reorderLoop args 0 [] [] = (flagGroup args, positionalGroup args)"
    using reorderLoop_groups [of 0 args "[]" "[]"] start
    by (simp add: flagGroup_def positionalGroup_def)
  then show ?thesis
    by (simp add: reorderArgs_def)
qed

lemma mset_groups: "mset (flagGroup args @ positionalGroup args) = mset args"
proof -
  have "mset (flagGroup args @ positionalGroup args) =
        image_mset (nth args) (filter_mset (inFlagGroup args) (mset [0..<length args]) +
          filter_mset (\<lambda>j. \<not> inFlagGroup args j) (mset [0..<length args]))"
    by (simp add: flagGroup_def positionalGroup_def)
  also have "\<dots> = image_mset (nth args) (mset [0..<length args])"
    by (simp only: multiset_partition [symmetric])
  also have "\<dots> = mset (map (nth args) [0..<length args])"
    by simp
  also have "\<dots> = mset args"
    by (simp only: map_nth)
  finally show ?thesis .
qed

text \<open>
  C4. For every token sequence, the reorderer returns the flag group followed by the
  positional group: the flag group holds every flag token and every value a value-taking
  flag consumed, the positional group every other token, each group in the order of the
  input (a group is the input read at the increasing indices of its members); the output
  is a permutation of the input and has its length.
\<close>

theorem reorderArgs_contract:
  "reorderArgs args = flagGroup args @ positionalGroup args
   \<and> mset (reorderArgs args) = mset args
   \<and> length (reorderArgs args) = length args
   \<and> (\<forall>j < length args. hasPrefix (args ! j) ''-'' \<longrightarrow> inFlagGroup args j)"
proof -
  have g: "reorderArgs args = flagGroup args @ positionalGroup args"
    by (rule reorderArgs_groups)
  have m: "mset (reorderArgs args) = mset args"
    by (simp only: g mset_groups)
  have l: "length (reorderArgs args) = length args"
    using m by (rule mset_eq_length)
  show ?thesis
    using g m l by (simp add: inFlagGroup_def)
qed

theorem reorderArgs_contract_witness:
  "reorderArgs [''ssh'', ''--include'', ''intro'', ''--debug'', ''key''] =
     [''--include'', ''intro'', ''--debug''] @ [''ssh'', ''key'']
   \<and> flagGroup [''ssh'', ''--include'', ''intro'', ''--debug'', ''key''] =
       [''--include'', ''intro'', ''--debug'']
   \<and> positionalGroup [''ssh'', ''--include'', ''intro'', ''--debug'', ''key''] =
       [''ssh'', ''key'']"
proof -
  have f: "flagGroup [''ssh'', ''--include'', ''intro'', ''--debug'', ''key''] =
      [''--include'', ''intro'', ''--debug'']"
    by code_simp
  have p: "positionalGroup [''ssh'', ''--include'', ''intro'', ''--debug'', ''key''] =
      [''ssh'', ''key'']"
    by code_simp
  show ?thesis
    using reorderArgs_contract [of "[''ssh'', ''--include'', ''intro'', ''--debug'', ''key'']"]
    by (simp only: f p simp_thms)
qed

text \<open>
  C5. On \<open>["ssh key", "--debug", "--size", "5"]\<close> the reorderer returns
  \<open>["--debug", "--size", "5", "ssh key"]\<close>, and on \<open>["ssh key", "--size=5", "--debug"]\<close>
  it returns \<open>["--size=5", "--debug", "ssh key"]\<close>.
\<close>

theorem reorderArgs_instances:
  "reorderArgs [''ssh key'', ''--debug'', ''--size'', ''5''] =
     [''--debug'', ''--size'', ''5'', ''ssh key'']
   \<and> reorderArgs [''ssh key'', ''--size=5'', ''--debug''] =
     [''--size=5'', ''--debug'', ''ssh key'']"
  by code_simp

subsection \<open>The query parameter builder: proofs\<close>

lemma paramValues_paramsSet:
  "paramValues (paramsSet k v params) k' = (if k' = k then [v] else paramValues params k')"
  by (simp add: paramValues_def paramsSet_def)

lemma paramValues_paramsAdd:
  "paramValues (paramsAdd k v params) k' =
     (if k' = k then paramValues params k @ [v] else paramValues params k')"
  by (simp add: paramValues_def paramsAdd_def)

lemma paramValues_addEach:
  "paramValues (addEach k vs params) k' =
     (if k' = k then paramValues params k @ vs else paramValues params k')"
  unfolding addEach_def
  by (induction vs arbitrary: params) (simp_all add: paramValues_paramsAdd)

lemma paramValues_empty: "paramValues Map.empty k = []"
  by (simp add: paramValues_def)

lemmas paramValues_simps =
  paramValues_paramsSet paramValues_paramsAdd paramValues_addEach paramValues_empty

text \<open>
  C2. With no include selector, the include parameters are exactly \<open>["toplevel"]\<close> when
  matched content is set and exactly \<open>["intro"]\<close> when it is not; with one or more
  selectors they are exactly the selectors, in their order, whatever the matched-content
  flag.
\<close>

theorem include_parameters:
  "paramValues (requestParams loaded opts) ''include'' =
     (if includes_opt opts = [] then
        (if includeMatchedContentFlag opts then [''toplevel''] else [''intro''])
      else includes_opt opts)"
  by (simp add: requestParams_def buildParams_def Let_def paramValues_simps)

theorem include_parameters_witness:
  "paramValues (requestParams None (defaultOptions\<lparr>includeMatchedContentFlag := True\<rparr>))
     ''include'' = [''toplevel'']
   \<and> paramValues (requestParams None defaultOptions) ''include'' = [''intro'']
   \<and> paramValues (requestParams None (defaultOptions\<lparr>includeMatchedContentFlag := True,
         includes_opt := [''headings'']\<rparr>)) ''include'' = [''headings'']"
  using include_parameters [of None "defaultOptions\<lparr>includeMatchedContentFlag := True\<rparr>"]
    include_parameters [of None defaultOptions]
    include_parameters [of None
      "defaultOptions\<lparr>includeMatchedContentFlag := True, includes_opt := [''headings'']\<rparr>"]
  by (simp add: defaultOptions_def)

text \<open>
  C3. The highlights parameters are the caller's highlight selectors in their order,
  duplicates kept, followed by \<open>content_explicit\<close> when matched content is set, for
  any number of selectors, zero included.
\<close>

theorem highlights_parameters:
  "paramValues (requestParams loaded opts) ''highlights'' =
     highlights opts @ (if includeMatchedContentFlag opts then [''content_explicit''] else [])"
  by (simp add: requestParams_def buildParams_def Let_def paramValues_simps)

theorem highlights_parameters_witness:
  "paramValues (requestParams None (defaultOptions\<lparr>includeMatchedContentFlag := True,
       highlights := [''title'', ''title'']\<rparr>)) ''highlights'' =
     [''title'', ''title'', ''content_explicit'']
   \<and> paramValues (requestParams None (defaultOptions\<lparr>includeMatchedContentFlag := True\<rparr>))
       ''highlights'' = [''content_explicit'']"
  using highlights_parameters [of None
      "defaultOptions\<lparr>includeMatchedContentFlag := True, highlights := [''title'', ''title'']\<rparr>"]
    highlights_parameters [of None "defaultOptions\<lparr>includeMatchedContentFlag := True\<rparr>"]
  by (simp add: defaultOptions_def)

subsection \<open>The output of the results: proofs\<close>

lemma maxResults_le_hits: "maxResults opts result \<le> int (length (Hits result))"
  by (simp add: maxResults_def Let_def)

lemma wrap64_id: "in_int64 k \<Longrightarrow> wrap64 k = k"
  unfolding wrap64_def in_int64_def
  by (simp add: signed_take_bit_int_eq_self)

lemma wrap64_pred: "wrap64 (wrap64 k - 1) = wrap64 (k - 1)"
  unfolding wrap64_def
  by (metis signed_take_bit_diff signed_take_bit_signed_take_bit min.idem)

lemma sdiv_nonneg: "0 \<le> (x::int) \<Longrightarrow> 0 < y \<Longrightarrow> x sdiv y = x div y"
  by (simp add: signed_divide_int_def sgn_if)

lemma ceil_div: 
  assumes "0 < (s::int)" shows "(f + s - 1) div s = - (- f div s)"
proof -
  define q r where "q = f div s" and "r = f mod s"
  have f: "f = r + q * s" by (simp add: q_def r_def)
  have r: "0 \<le> r" "r < s" using assms by (simp_all add: r_def)
  have rhs: "- (- f div s) = (if r = 0 then q else q + 1)"
    using assms by (simp add: zdiv_zminus1_eq_if q_def r_def)
  have lhs: "(f + s - 1) div s = (if r = 0 then q else q + 1)"
  proof (cases "r = 0")
    case True
    have "f + s - 1 = (s - 1) + q * s" using f True by simp
    then have "(f + s - 1) div s = ((s - 1) + q * s) div s" by (rule arg_cong)
    also have "\<dots> = q + (s - 1) div s" using assms by (simp only: div_mult_self1) 
    also have "(s - 1) div s = 0" using assms by (simp add: div_pos_pos_trivial)
    finally show ?thesis using True by simp
  next
    case False
    have "f + s - 1 = (r - 1) + (q + 1) * s" using f by (simp add: algebra_simps)
    then have "(f + s - 1) div s = ((r - 1) + (q + 1) * s) div s" by (rule arg_cong)
    also have "\<dots> = (q + 1) + (r - 1) div s" using assms by (simp only: div_mult_self1) 
    also have "(r - 1) div s = 0" using r False by (simp add: div_pos_pos_trivial)
    finally show ?thesis using False by simp
  qed
  show ?thesis by (simp only: lhs rhs)
qed

lemma totalPages_None: "totalPages result = None \<longleftrightarrow> Size (Meta result) = 0"
  by (simp add: totalPages_def goDiv_def)

lemma totalPages_ceiling:
  assumes f: "0 \<le> Value (Found (Meta result))" and s: "1 \<le> Size (Meta result)"
    and b: "in_int64 (Value (Found (Meta result)) + Size (Meta result) - 1)"
  shows "totalPages result =
    Some \<lceil>real_of_int (Value (Found (Meta result))) / real_of_int (Size (Meta result))\<rceil>"
proof -
  let ?f = "Value (Found (Meta result))" and ?s = "Size (Meta result)"
  have sum: "wrap64 (wrap64 (?f + ?s) - 1) = ?f + ?s - 1"
    using b by (simp add: wrap64_pred wrap64_id)
  have nonneg: "0 \<le> ?f + ?s - 1" using f s by simp
  have q: "(?f + ?s - 1) sdiv ?s = (?f + ?s - 1) div ?s"
    using nonneg s by (simp add: sdiv_nonneg)
  have q0: "0 \<le> (?f + ?s - 1) div ?s"
    using nonneg s by (simp add: pos_imp_zdiv_nonneg_iff)
  have q1: "(?f + ?s - 1) div ?s \<le> ?f + ?s - 1"
    using zdiv_mono2 [of "?f + ?s - 1" 1 ?s] nonneg s by simp
  have "in_int64 ((?f + ?s - 1) div ?s)"
    using q0 q1 b by (simp add: in_int64_def)
  then have w: "wrap64 ((?f + ?s - 1) div ?s) = (?f + ?s - 1) div ?s"
    by (rule wrap64_id)
  have c: "(?f + ?s - 1) div ?s = \<lceil>real_of_int ?f / real_of_int ?s\<rceil>"
    using s by (simp add: ceiling_divide_eq_div ceil_div)
  have "totalPages result = Some (wrap64 ((?f + ?s - 1) div ?s))"
    using s by (simp add: totalPages_def goDiv_def sum q)
  then have "totalPages result = Some ((?f + ?s - 1) div ?s)"
    by (simp only: w)
  then show ?thesis
    by (simp only: c)
qed

lemma outputResults_listing:
  assumes "formatFlag opts \<noteq> ''json''" and "Value (Found (Meta result)) \<noteq> 0"
  shows "shownItems (outputResults marshalled renderer opts query result) =
           map (\<lambda>i. itemOutput renderer opts i (Hits result ! i)) [0..<nat (maxResults opts result)]"
    and "hintOf (outputResults marshalled renderer opts query result) =
           moreHint opts result (maxResults opts result)"
    and "paginationOf (outputResults marshalled renderer opts query result) =
           (case totalPages result of None \<Rightarrow> [] | Some pages \<Rightarrow> paginationLines result pages)"
    and "isPanic (outputResults marshalled renderer opts query result) \<longleftrightarrow> Size (Meta result) = 0"
  using assms
  by (simp_all add: outputResults_def Let_def shownItems_def hintOf_def paginationOf_def isPanic_def
      totalPages_None [symmetric] split: option.split)

lemma outputResults_no_listing:
  assumes "formatFlag opts = ''json'' \<or> Value (Found (Meta result)) = 0"
  shows "shownItems (outputResults marshalled renderer opts query result) = []"
    and "hintOf (outputResults marshalled renderer opts query result) = []"
    and "paginationOf (outputResults marshalled renderer opts query result) = []"
    and "\<not> isPanic (outputResults marshalled renderer opts query result)"
  using assms
  by (auto simp add: outputResults_def Let_def shownItems_def hintOf_def paginationOf_def isPanic_def
      split: option.split)

lemma mainFromQuery_valid:
  "validOptions opts \<Longrightarrow>
   mainFromQuery marshalled renderer opts result =
     outputResults marshalled renderer opts (queryOf opts) result"
  by (simp add: mainFromQuery_def validOptions_def Let_def)

lemma mainFromQuery_invalid:
  assumes "\<not> validOptions opts"
  shows "shownItems (mainFromQuery marshalled renderer opts result) = []"
    and "hintOf (mainFromQuery marshalled renderer opts result) = []"
    and "paginationOf (mainFromQuery marshalled renderer opts result) = []"
    and "\<not> isPanic (mainFromQuery marshalled renderer opts result)"
  using assms
  by (auto simp add: mainFromQuery_def validOptions_def Let_def shownItems_def hintOf_def
      paginationOf_def isPanic_def)

text \<open>
  C1. In a run that lists results (options that pass the checks of \<^verbatim>\<open>main\<close>, a
  format other than json, a found count other than zero), the results shown are the first
  hits in order, and their number is 5 if the requested size is 5, more than 5 items were
  returned and matched content is off; otherwise the size if it is less than the number
  of items returned; otherwise the number of items returned.
\<close>

theorem displayed_count:
  assumes "validOptions opts" and "formatFlag opts \<noteq> ''json''"
    and "Value (Found (Meta result)) \<noteq> 0"
  shows "shownItems (mainFromQuery marshalled renderer opts result) =
           map (\<lambda>i. itemOutput renderer opts i (Hits result ! i))
             [0..<length (shownItems (mainFromQuery marshalled renderer opts result))]
         \<and> int (length (shownItems (mainFromQuery marshalled renderer opts result))) =
           (if sizeFlag opts = 5 \<and> int (length (Hits result)) > 5
               \<and> \<not> includeMatchedContentFlag opts then 5
            else if sizeFlag opts < int (length (Hits result)) then sizeFlag opts
            else int (length (Hits result)))"
proof -
  have pos: "0 \<le> maxResults opts result"
    using assms(1) by (simp add: validOptions_def maxResults_def Let_def)
  have shown: "shownItems (mainFromQuery marshalled renderer opts result) =
      map (\<lambda>i. itemOutput renderer opts i (Hits result ! i)) [0..<nat (maxResults opts result)]"
    using assms by (simp add: mainFromQuery_valid outputResults_listing(1))
  have len: "int (length (shownItems (mainFromQuery marshalled renderer opts result))) =
      maxResults opts result"
    using pos by (simp add: shown)
  have n: "length (shownItems (mainFromQuery marshalled renderer opts result)) =
      nat (maxResults opts result)"
    by (simp add: shown)
  show ?thesis
    using len shown by (simp only: n) (simp add: maxResults_def Let_def)
qed

theorem displayed_count_witness:
  "int (length (shownItems (mainFromQuery None None (defaultOptions\<lparr>queryFlag := ''ssh key''\<rparr>)
      (resultWith 10 1 5 (replicate 10 (itemWith ''Title'' ''/en/page'' ''Intro'')))))) = 5
   \<and> int (length (shownItems (mainFromQuery None None (defaultOptions\<lparr>queryFlag := ''ssh key''\<rparr>)
      (resultWith 3 1 5 (replicate 3 (itemWith ''Title'' ''/en/page'' ''Intro'')))))) = 3
   \<and> int (length (shownItems (mainFromQuery None None
      (defaultOptions\<lparr>queryFlag := ''ssh key'', sizeFlag := 3\<rparr>)
      (resultWith 10 1 3 (replicate 10 (itemWith ''Title'' ''/en/page'' ''Intro'')))))) = 3"
  using displayed_count [of "defaultOptions\<lparr>queryFlag := ''ssh key''\<rparr>"
      "resultWith 10 1 5 (replicate 10 (itemWith ''Title'' ''/en/page'' ''Intro''))" None None]
    displayed_count [of "defaultOptions\<lparr>queryFlag := ''ssh key''\<rparr>"
      "resultWith 3 1 5 (replicate 3 (itemWith ''Title'' ''/en/page'' ''Intro''))" None None]
    displayed_count [of "defaultOptions\<lparr>queryFlag := ''ssh key'', sizeFlag := 3\<rparr>"
      "resultWith 10 1 3 (replicate 10 (itemWith ''Title'' ''/en/page'' ''Intro''))" None None]
  by (simp add: defaultOptions_def validOptions_def queryOf_def resultWith_def)

lemma moreHint_nonempty:
  "(moreHint opts result n \<noteq> []) =
     (n = 5 \<and> Value (Found (Meta result)) > 5 \<and> \<not> includeMatchedContentFlag opts)"
  by (simp add: moreHint_def Let_def)

text \<open>
  C6. The hint after the listing is printed if and only if exactly 5 results were shown,
  the found count is greater than 5 and matched content is off. It names
  \<open>--size <found count>\<close> when the found count is at most 50, and \<open>--size 50\<close> with
  \<open>--page\<close> when it exceeds 50, and ends with the reminder of
  \<open>--include-matched-content\<close>.
\<close>

theorem more_results_hint:
  "hintOf (mainFromQuery marshalled renderer opts result) =
     (if length (shownItems (mainFromQuery marshalled renderer opts result)) = 5
         \<and> Value (Found (Meta result)) > 5 \<and> \<not> includeMatchedContentFlag opts
      then
        (if Value (Found (Meta result)) \<le> 50 then
           [''Showing top 5 results. Use --size '' @ itoa (Value (Found (Meta result)))
              @ '' to see all '' @ itoa (Value (Found (Meta result))) @ '' results.\<newline>'']
         else
           [''Showing top 5 results. Use --size 50 to see the maximum 50 results per page.\<newline>'',
            ''Use --page to navigate through all '' @ itoa (Value (Found (Meta result)))
              @ '' results.\<newline>''])
        @ [''Use --include-matched-content for highlighted matches instead of descriptions.\<newline>\<newline>'']
      else [])
   \<and> (hintOf (mainFromQuery marshalled renderer opts result) \<noteq> []) =
       (length (shownItems (mainFromQuery marshalled renderer opts result)) = 5
        \<and> Value (Found (Meta result)) > 5 \<and> \<not> includeMatchedContentFlag opts)"
proof (cases "validOptions opts \<and> formatFlag opts \<noteq> ''json'' \<and> Value (Found (Meta result)) \<noteq> 0")
  case True
  then have run: "mainFromQuery marshalled renderer opts result =
      outputResults marshalled renderer opts (queryOf opts) result"
    by (simp add: mainFromQuery_valid)
  have h: "hintOf (mainFromQuery marshalled renderer opts result) =
      moreHint opts result (maxResults opts result)"
    using True by (simp add: run outputResults_listing(2))
  have n: "length (shownItems (mainFromQuery marshalled renderer opts result)) =
      nat (maxResults opts result)"
    using True by (simp add: run outputResults_listing(1))
  have five: "(nat (maxResults opts result) = 5) = (maxResults opts result = 5)"
    by (simp add: nat_eq_iff)
  show ?thesis
    by (simp only: h n five moreHint_nonempty) (simp add: moreHint_def Let_def)
next
  case False
  have "shownItems (mainFromQuery marshalled renderer opts result) = []
      \<and> hintOf (mainFromQuery marshalled renderer opts result) = []"
  proof (cases "validOptions opts")
    case True
    with False have "formatFlag opts = ''json'' \<or> Value (Found (Meta result)) = 0"
      by blast
    then show ?thesis
      using True by (simp add: mainFromQuery_valid outputResults_no_listing)
  next
    case False
    then show ?thesis
      by (simp add: mainFromQuery_invalid)
  qed
  then show ?thesis
    by simp
qed

theorem more_results_hint_witness:
  "hintOf (mainFromQuery None None (defaultOptions\<lparr>queryFlag := ''ssh key''\<rparr>)
      (resultWith 22 1 5 (replicate 5 (itemWith ''Title'' ''/en/page'' ''Intro'')))) =
     [''Showing top 5 results. Use --size 22 to see all 22 results.\<newline>'',
      ''Use --include-matched-content for highlighted matches instead of descriptions.\<newline>\<newline>'']
   \<and> hintOf (mainFromQuery None None (defaultOptions\<lparr>queryFlag := ''ssh key'', sizeFlag := 3\<rparr>)
      (resultWith 22 1 3 (replicate 3 (itemWith ''Title'' ''/en/page'' ''Intro'')))) = []"
proof -
  have n5: "length (shownItems (mainFromQuery None None (defaultOptions\<lparr>queryFlag := ''ssh key''\<rparr>)
      (resultWith 22 1 5 (replicate 5 (itemWith ''Title'' ''/en/page'' ''Intro''))))) = 5"
    by (simp add: mainFromQuery_def outputResults_def Let_def shownItems_def maxResults_def
        totalPages_def goDiv_def defaultOptions_def resultWith_def queryOf_def)
  have n3: "length (shownItems (mainFromQuery None None
      (defaultOptions\<lparr>queryFlag := ''ssh key'', sizeFlag := 3\<rparr>)
      (resultWith 22 1 3 (replicate 3 (itemWith ''Title'' ''/en/page'' ''Intro''))))) = 3"
    by (simp add: mainFromQuery_def outputResults_def Let_def shownItems_def maxResults_def
        totalPages_def goDiv_def defaultOptions_def resultWith_def queryOf_def)
  have d: "itoa 22 = ''22''"
    by code_simp
  show ?thesis
    using more_results_hint [of None None "defaultOptions\<lparr>queryFlag := ''ssh key''\<rparr>"
        "resultWith 22 1 5 (replicate 5 (itemWith ''Title'' ''/en/page'' ''Intro''))"]
      more_results_hint [of None None "defaultOptions\<lparr>queryFlag := ''ssh key'', sizeFlag := 3\<rparr>"
        "resultWith 22 1 3 (replicate 3 (itemWith ''Title'' ''/en/page'' ''Intro''))"]
    by (simp only: n5 n3) (simp add: defaultOptions_def resultWith_def d)
qed

lemma shownItems_nth:
  assumes "validOptions opts" and "formatFlag opts \<noteq> ''json''"
    and "Value (Found (Meta result)) \<noteq> 0"
    and "i < length (shownItems (mainFromQuery marshalled renderer opts result))"
  shows "shownItems (mainFromQuery marshalled renderer opts result) ! i =
           itemOutput renderer opts i (Hits result ! i)"
proof -
  have shown: "shownItems (mainFromQuery marshalled renderer opts result) =
      map (\<lambda>i. itemOutput renderer opts i (Hits result ! i)) [0..<nat (maxResults opts result)]"
    using assms(1-3) by (simp add: mainFromQuery_valid outputResults_listing(1))
  have "i < nat (maxResults opts result)"
    using assms(4) by (simp add: shown)
  then show ?thesis
    by (simp add: shown)
qed

lemma itemLines_intro:
  assumes "\<not> includeMatchedContentFlag opts" and "Intro item \<noteq> []"
  shows "itemLines pretty opts i item =
           [itoa (int i + 1) @ ''. '' @ Title item @ ''\<newline>'',
            ''   https://docs.github.com'' @ URL item @ ''\<newline>'',
            ''   '' @ (if length (Intro item) \<le> 150 then Intro item
                       else take 150 (Intro item) @ ''...'') @ ''\<newline>'',
            ''\<newline>'']"
  using assms
  by (auto simp add: itemLines_def summaryLines_def matchedLines_def introDescription_def Let_def)

text \<open>
  C7. In a run that lists results with matched content off, for every result shown whose
  intro is not empty: in plain output the run prints the numbered title, the URL, the
  description and an empty line; in pretty output these four pieces, concatenated, are
  the markdown block given to the renderer, whose output is printed (the block itself
  when there is no renderer or it fails). The description is the intro unchanged when it
  has at most 150 bytes (so at exactly 150), and otherwise its first 150 bytes followed
  by three dots, so that an intro of 151 bytes gives a description of 153.
\<close>

theorem intro_truncation:
  assumes "validOptions opts" and "formatFlag opts \<noteq> ''json''"
    and "Value (Found (Meta result)) \<noteq> 0"
    and "\<not> includeMatchedContentFlag opts"
    and "i < length (shownItems (mainFromQuery marshalled renderer opts result))"
    and "Intro (Hits result ! i) \<noteq> []"
  shows "(let item = Hits result ! i;
              description = (if length (Intro item) \<le> 150 then Intro item
                             else take 150 (Intro item) @ ''...'');
              block = [itoa (int i + 1) @ ''. '' @ Title item @ ''\<newline>'',
                       ''   https://docs.github.com'' @ URL item @ ''\<newline>'',
                       ''   '' @ description @ ''\<newline>'',
                       ''\<newline>'']
          in shownItems (mainFromQuery marshalled renderer opts result) ! i =
               (if usePrettyRendering opts then
                  (case renderer of
                     Some render \<Rightarrow>
                       (case render (concat block) of Some output \<Rightarrow> [output]
                        | None \<Rightarrow> [concat block])
                   | None \<Rightarrow> [concat block])
                else block)
             \<and> introDescription (Intro item) = description
             \<and> (length (Intro item) = 150 \<longrightarrow> description = Intro item)
             \<and> (length (Intro item) = 151 \<longrightarrow> length description = 153))"
proof -
  have nth: "shownItems (mainFromQuery marshalled renderer opts result) ! i =
      itemOutput renderer opts i (Hits result ! i)"
    using assms(1,2,3,5) by (rule shownItems_nth)
  have lines: "\<And>pretty. itemLines pretty opts i (Hits result ! i) =
           [itoa (int i + 1) @ ''. '' @ Title (Hits result ! i) @ ''\<newline>'',
            ''   https://docs.github.com'' @ URL (Hits result ! i) @ ''\<newline>'',
            ''   '' @ (if length (Intro (Hits result ! i)) \<le> 150 then Intro (Hits result ! i)
                       else take 150 (Intro (Hits result ! i)) @ ''...'') @ ''\<newline>'',
            ''\<newline>'']"
    using assms(4,6) by (rule itemLines_intro)
  show ?thesis
    unfolding Let_def nth itemOutput_def lines
    by (auto simp add: introDescription_def Let_def split: option.split)
qed

theorem intro_truncation_witness:
  "shownItems (mainFromQuery None None (defaultOptions\<lparr>queryFlag := ''ssh key'', plainFlag := True\<rparr>)
      (resultWith 1 1 5 [itemWith ''Title'' ''/en/page'' (replicate 151 (CHR ''a''))])) ! 0 =
     [''1. Title\<newline>'', ''   https://docs.github.com/en/page\<newline>'',
      ''   '' @ replicate 150 (CHR ''a'') @ ''...'' @ ''\<newline>'', ''\<newline>'']
   \<and> length (introDescription (replicate 151 (CHR ''a''))) = 153
   \<and> shownItems (mainFromQuery None None (defaultOptions\<lparr>queryFlag := ''ssh key''\<rparr>)
      (resultWith 1 1 5 [itemWith ''Title'' ''/en/page'' (replicate 150 (CHR ''a''))])) ! 0 =
     [''1. Title\<newline>'' @ ''   https://docs.github.com/en/page\<newline>''
      @ ''   '' @ replicate 150 (CHR ''a'') @ ''\<newline>'' @ ''\<newline>'']"
proof -
  have n1: "length (shownItems (mainFromQuery None None
      (defaultOptions\<lparr>queryFlag := ''ssh key'', plainFlag := True\<rparr>)
      (resultWith 1 1 5 [itemWith ''Title'' ''/en/page'' (replicate 151 (CHR ''a''))]))) = 1"
    by (simp add: mainFromQuery_def outputResults_def Let_def shownItems_def maxResults_def
        totalPages_def goDiv_def defaultOptions_def resultWith_def queryOf_def)
  have n2: "length (shownItems (mainFromQuery None None (defaultOptions\<lparr>queryFlag := ''ssh key''\<rparr>)
      (resultWith 1 1 5 [itemWith ''Title'' ''/en/page'' (replicate 150 (CHR ''a''))]))) = 1"
    by (simp add: mainFromQuery_def outputResults_def Let_def shownItems_def maxResults_def
        totalPages_def goDiv_def defaultOptions_def resultWith_def queryOf_def)
  have d: "itoa 1 = ''1''"
    by code_simp
  show ?thesis
    using intro_truncation [of "defaultOptions\<lparr>queryFlag := ''ssh key'', plainFlag := True\<rparr>"
        "resultWith 1 1 5 [itemWith ''Title'' ''/en/page'' (replicate 151 (CHR ''a''))]" 0 None None]
      intro_truncation [of "defaultOptions\<lparr>queryFlag := ''ssh key''\<rparr>"
        "resultWith 1 1 5 [itemWith ''Title'' ''/en/page'' (replicate 150 (CHR ''a''))]" 0 None None]
    by (simp only: n1 n2)
      (simp add: defaultOptions_def validOptions_def queryOf_def resultWith_def itemWith_def
        usePrettyRendering_def Let_def d)
qed

text \<open>
  C8, amended. For a run in a format other than json, with a found count that is not
  negative, a page size of at least 1 and a sum \<open>found + size - 1\<close> within the 64-bit
  range, the total pages are the ceiling of the found count divided by the page size; the
  pagination line (current page, total pages, found count) is printed exactly when the
  total pages exceed 1, and the hint for the next page exactly when, in addition, the
  current page is less than the total pages.
\<close>

theorem pagination_arithmetic:
  assumes "validOptions opts" and "formatFlag opts \<noteq> ''json''"
    and "0 \<le> Value (Found (Meta result))" and "1 \<le> Size (Meta result)"
    and "in_int64 (Value (Found (Meta result)) + Size (Meta result) - 1)"
  shows "totalPages result =
           Some \<lceil>real_of_int (Value (Found (Meta result))) / real_of_int (Size (Meta result))\<rceil>
         \<and> paginationOf (mainFromQuery marshalled renderer opts result) =
           (if \<lceil>real_of_int (Value (Found (Meta result))) / real_of_int (Size (Meta result))\<rceil> > 1
            then
              [''\<newline>Showing page '' @ itoa (Page (Meta result)) @ '' of ''
                 @ itoa \<lceil>real_of_int (Value (Found (Meta result))) / real_of_int (Size (Meta result))\<rceil>
                 @ '' ('' @ itoa (Value (Found (Meta result))) @ '' total results)\<newline>'']
              @ (if Page (Meta result)
                      < \<lceil>real_of_int (Value (Found (Meta result))) / real_of_int (Size (Meta result))\<rceil>
                 then [''Use --page '' @ itoa (wrap64 (Page (Meta result) + 1))
                         @ '' to see the next page\<newline>'']
                 else [])
            else [])"
proof -
  let ?pages = "\<lceil>real_of_int (Value (Found (Meta result))) / real_of_int (Size (Meta result))\<rceil>"
  have tp: "totalPages result = Some ?pages"
    using assms(3-5) by (rule totalPages_ceiling)
  have run: "mainFromQuery marshalled renderer opts result =
      outputResults marshalled renderer opts (queryOf opts) result"
    using assms(1) by (rule mainFromQuery_valid)
  have "paginationOf (mainFromQuery marshalled renderer opts result) =
      paginationLines result ?pages"
  proof (cases "Value (Found (Meta result)) = 0")
    case True
    then have "?pages = 0" by simp
    moreover have "paginationOf (mainFromQuery marshalled renderer opts result) = []"
      using True by (simp add: run outputResults_no_listing(3))
    ultimately show ?thesis
      by (simp add: paginationLines_def)
  next
    case False
    then show ?thesis
      using assms(2) by (simp add: run outputResults_listing(3) tp)
  qed
  then show ?thesis
    using tp by (simp add: paginationLines_def)
qed

theorem pagination_arithmetic_witness:
  "totalPages (resultWith 22 1 5 []) = Some 5
   \<and> paginationOf (mainFromQuery None None (defaultOptions\<lparr>queryFlag := ''ssh key''\<rparr>)
        (resultWith 22 1 5 [])) =
       [''\<newline>Showing page 1 of 5 (22 total results)\<newline>'',
        ''Use --page 2 to see the next page\<newline>'']"
proof -
  have c: "\<lceil>real_of_int 22 / real_of_int 5\<rceil> = 5"
    by (simp add: ceiling_divide_eq_div)
  have d: "itoa 1 = ''1''" "itoa 2 = ''2''" "itoa 5 = ''5''" "itoa 22 = ''22''"
    by code_simp+
  have w: "wrap64 2 = 2"
    by (simp add: wrap64_def)
  show ?thesis
    using pagination_arithmetic [of "defaultOptions\<lparr>queryFlag := ''ssh key''\<rparr>"
        "resultWith 22 1 5 []" None None]
    by (simp add: defaultOptions_def validOptions_def queryOf_def resultWith_def in_int64_def
        c d w)
qed

text \<open>
  Without the two bounds the total pages are not the ceiling. The division truncates
  towards zero, so a found count of \<open>-4\<close> with a page size of 3 gives 0 pages where the
  ceiling is \<open>-1\<close>; and the sum wraps at 64 bits, so the greatest found count with a page
  size of 2 gives a negative number of pages.
\<close>

theorem pagination_arithmetic_counterexample:
  "1 \<le> Size (Meta (resultWith (- 4) 1 3 []))
   \<and> totalPages (resultWith (- 4) 1 3 []) = Some 0
   \<and> \<lceil>real_of_int (Value (Found (Meta (resultWith (- 4) 1 3 []))))
        / real_of_int (Size (Meta (resultWith (- 4) 1 3 [])))\<rceil> = - 1
   \<and> 1 \<le> Size (Meta (resultWith 9223372036854775807 1 2 []))
   \<and> totalPages (resultWith 9223372036854775807 1 2 []) = Some (- 4611686018427387904)
   \<and> \<lceil>real_of_int (Value (Found (Meta (resultWith 9223372036854775807 1 2 []))))
        / real_of_int (Size (Meta (resultWith 9223372036854775807 1 2 [])))\<rceil>
       = 4611686018427387904"
  by (simp add: resultWith_def totalPages_def goDiv_def wrap64_def signed_divide_int_def
      ceiling_divide_eq_div)

text \<open>
  C9, amended. For a run whose decoded response has a found count of zero: in a format
  other than json the program prints the single message that no results were found for
  the query; in the json format it prints the marshalled response instead (or reports
  the error of the marshalling); in both cases no result, no hint and no pagination.
\<close>

theorem zero_results:
  assumes "validOptions opts" and "Value (Found (Meta result)) = 0"
  shows "(formatFlag opts \<noteq> ''json'' \<longrightarrow>
           mainFromQuery marshalled renderer opts result =
             NoResults (''No results found for query: '' @ queryOf opts @ ''\<newline>'')
           \<and> stdoutOf (mainFromQuery marshalled renderer opts result) =
             [''No results found for query: '' @ queryOf opts @ ''\<newline>''])
         \<and> (formatFlag opts = ''json'' \<longrightarrow>
           mainFromQuery marshalled renderer opts result =
             (case marshalled of
                None \<Rightarrow> ExitFailure ''error: ''
              | Some output \<Rightarrow> JsonOutput (output @ ''\<newline>''))
           \<and> stdoutOf (mainFromQuery marshalled renderer opts result) =
             (case marshalled of None \<Rightarrow> [] | Some output \<Rightarrow> [output @ ''\<newline>'']))
         \<and> shownItems (mainFromQuery marshalled renderer opts result) = []
         \<and> hintOf (mainFromQuery marshalled renderer opts result) = []
         \<and> paginationOf (mainFromQuery marshalled renderer opts result) = []"
  using assms
  by (simp add: mainFromQuery_valid outputResults_def stdoutOf_def shownItems_def hintOf_def
      paginationOf_def split: option.split)

theorem zero_results_witness:
  "stdoutOf (mainFromQuery None None (defaultOptions\<lparr>positional := [''ssh'', ''key'']\<rparr>)
     (resultWith 0 1 5 [])) = [''No results found for query: ssh key\<newline>'']
   \<and> stdoutOf (mainFromQuery (Some ''{}'') None
        (defaultOptions\<lparr>queryFlag := ''ssh key'', formatFlag := ''json''\<rparr>) (resultWith 0 1 5 []))
      = [''{}\<newline>'']"
  using zero_results [of "defaultOptions\<lparr>positional := [''ssh'', ''key'']\<rparr>" "resultWith 0 1 5 []"
      None None]
    zero_results [of "defaultOptions\<lparr>queryFlag := ''ssh key'', formatFlag := ''json''\<rparr>"
      "resultWith 0 1 5 []" "Some ''{}''" None]
  by (simp add: defaultOptions_def validOptions_def queryOf_def resultWith_def stdoutOf_def)

text \<open>
  In the json format the check of the format comes first: a response with a found count
  of zero is printed as JSON, and the message is not.
\<close>

theorem zero_results_counterexample:
  "Value (Found (Meta (resultWith 0 1 5 []))) = 0
   \<and> validOptions (defaultOptions\<lparr>queryFlag := ''ssh key'', formatFlag := ''json''\<rparr>)
   \<and> mainFromQuery (Some ''{}'') None
        (defaultOptions\<lparr>queryFlag := ''ssh key'', formatFlag := ''json''\<rparr>) (resultWith 0 1 5 [])
      = JsonOutput ''{}\<newline>''
   \<and> stdoutOf (mainFromQuery (Some ''{}'') None
        (defaultOptions\<lparr>queryFlag := ''ssh key'', formatFlag := ''json''\<rparr>) (resultWith 0 1 5 []))
      \<noteq> [''No results found for query: ssh key\<newline>'']"
  by (simp add: mainFromQuery_def outputResults_def stdoutOf_def defaultOptions_def validOptions_def
      queryOf_def resultWith_def)

text \<open>
  C10. The division of the total pages has no guard. With a page size of at least 1 the
  run does not panic; with valid options, a format other than json, a found count
  greater than 0 and a page size of 0, the division has no result and the run ends in the
  run-time panic.
\<close>

theorem total_pages_division:
  "(1 \<le> Size (Meta result) \<longrightarrow> \<not> isPanic (mainFromQuery marshalled renderer opts result))
   \<and> (validOptions opts \<and> formatFlag opts \<noteq> ''json'' \<and> 0 < Value (Found (Meta result))
        \<and> Size (Meta result) = 0 \<longrightarrow>
      totalPages result = None \<and> isPanic (mainFromQuery marshalled renderer opts result))"
proof -
  have iff: "isPanic (mainFromQuery marshalled renderer opts result) =
      (validOptions opts \<and> formatFlag opts \<noteq> ''json'' \<and> Value (Found (Meta result)) \<noteq> 0
       \<and> Size (Meta result) = 0)"
  proof (cases "validOptions opts")
    case False
    then show ?thesis by (simp add: mainFromQuery_invalid)
  next
    case True
    show ?thesis
    proof (cases "formatFlag opts = ''json'' \<or> Value (Found (Meta result)) = 0")
      case True
      with \<open>validOptions opts\<close> show ?thesis
        using outputResults_no_listing(4) [OF True] by (auto simp add: mainFromQuery_valid)
    next
      case False
      with \<open>validOptions opts\<close> show ?thesis
        by (simp add: mainFromQuery_valid outputResults_listing(4))
    qed
  qed
  show ?thesis
    by (auto simp add: iff totalPages_None)
qed

theorem total_pages_division_witness:
  "isPanic (mainFromQuery None None (defaultOptions\<lparr>queryFlag := ''ssh key''\<rparr>)
     (resultWith 3 0 0 [itemWith ''Title'' ''/en/page'' ''Intro'']))
   \<and> \<not> isPanic (mainFromQuery None None (defaultOptions\<lparr>queryFlag := ''ssh key''\<rparr>)
     (resultWith 3 1 5 [itemWith ''Title'' ''/en/page'' ''Intro'']))"
  using total_pages_division [of "resultWith 3 0 0 [itemWith ''Title'' ''/en/page'' ''Intro'']"
      None None "defaultOptions\<lparr>queryFlag := ''ssh key''\<rparr>"]
    total_pages_division [of "resultWith 3 1 5 [itemWith ''Title'' ''/en/page'' ''Intro'']"
      None None "defaultOptions\<lparr>queryFlag := ''ssh key''\<rparr>"]
  by (simp add: defaultOptions_def validOptions_def queryOf_def resultWith_def)

end
